theory Spec2Isabelle
  imports Complex_Main "HOL-Library.Sublist"
begin

section \<open>Data model\<close>

text \<open>
  The storefront keeps two pieces of component state: the cart of the page component
  (\<^verbatim>\<open>src/pages/Index.tsx\<close>, \<^verbatim>\<open>cartItems\<close>) and the favourites and the selected
  category of the product grid (\<^verbatim>\<open>ProductGrid\<close>). Every state change is a React
  functional update \<^verbatim>\<open>setX(prev => ...)\<close>; the model of a handler is the function from
  the previous value to the next one.

  A TypeScript \<^verbatim>\<open>number\<close> is modelled by an exact rational. The handlers compare a
  quantity with 0 and add 1 to it, which a double does exactly on the integers below
  \<open>2^53\<close>; rounding, \<^verbatim>\<open>NaN\<close> and the infinities are outside the model. The
  decimal ratings of the catalog are the fractions their literals denote.
  An optional field (\<^verbatim>\<open>originalPrice?\<close>) is an \<open>option\<close>.
  The fields \<^verbatim>\<open>id\<close> and \<^verbatim>\<open>image\<close> are primed, \<open>id\<close> and \<open>image\<close> being
  constants of HOL.
\<close>

type_synonym number = rat

record product =
  id' :: string
  name :: string
  price :: number
  originalPrice :: "number option"
  image' :: string
  category :: string
  rating :: number
  reviews :: number
  isNew :: "bool option"
  isSale :: "bool option"

text \<open>
  A cart line item is what \<^verbatim>\<open>{ ...product, quantity: 1 }\<close> builds: every field of the
  product, and a quantity.
\<close>

record cart_item = product +
  quantity :: number

section \<open>The cart state manager\<close>

text \<open>
  \<^verbatim>\<open>addToCart\<close>: \<^verbatim>\<open>prev.find\<close> gives the first item with the product's id or
  \<^verbatim>\<open>undefined\<close>; an item is an object, hence truthy, so the test \<^verbatim>\<open>if (existingItem)\<close>
  is the test that one was found. The spread \<^verbatim>\<open>{ ...item, quantity: item.quantity + 1 }\<close>
  is a record update, \<^verbatim>\<open>{ ...product, quantity: 1 }\<close> the extension of the product.
\<close>

definition addToCart :: "product \<Rightarrow> cart_item list \<Rightarrow> cart_item list" where
  "addToCart product prev =
     (case find (\<lambda>item. id' item = id' product) prev of
        Some existingItem \<Rightarrow>
          map (\<lambda>item. if id' item = id' product
                       then item\<lparr>quantity := quantity item + 1\<rparr>
                       else item) prev
      | None \<Rightarrow> prev @ [product.extend product (cart_item.fields 1)])"

definition removeFromCart :: "string \<Rightarrow> cart_item list \<Rightarrow> cart_item list" where
  "removeFromCart productId prev = filter (\<lambda>item. id' item \<noteq> productId) prev"

text \<open>
  \<^verbatim>\<open>updateQuantity\<close> returns early through \<^verbatim>\<open>removeFromCart\<close> when the quantity is
  not positive, and otherwise overwrites the quantity of the items with that id.
\<close>

definition updateQuantity :: "string \<Rightarrow> number \<Rightarrow> cart_item list \<Rightarrow> cart_item list" where
  "updateQuantity productId qty prev =
     (if qty \<le> 0 then removeFromCart productId prev
      else map (\<lambda>item. if id' item = productId then item\<lparr>quantity := qty\<rparr> else item) prev)"


section \<open>The catalog view\<close>

definition mockProducts :: "product list" where
  "mockProducts =
    [ \<lparr>id' = ''1'', name = ''Premium Wireless Headphones'', price = 24999,
        originalPrice = Some 32999, image' = ''/placeholder.svg'',
        category = ''Electronics'', rating = 4.8, reviews = 324,
        isNew = None, isSale = Some True\<rparr>,
      \<lparr>id' = ''2'', name = ''Designer Leather Jacket'', price = 49999,
        originalPrice = None, image' = ''/placeholder.svg'',
        category = ''Fashion'', rating = 4.9, reviews = 156,
        isNew = Some True, isSale = None\<rparr>,
      \<lparr>id' = ''3'', name = ''Smart Fitness Watch'', price = 20999,
        originalPrice = Some 24999, image' = ''/placeholder.svg'',
        category = ''Wearables'', rating = 4.7, reviews = 892,
        isNew = None, isSale = Some True\<rparr>,
      \<lparr>id' = ''4'', name = ''Minimalist Backpack'', price = 7499,
        originalPrice = None, image' = ''/placeholder.svg'',
        category = ''Accessories'', rating = 4.6, reviews = 203,
        isNew = None, isSale = None\<rparr>,
      \<lparr>id' = ''5'', name = ''Organic Coffee Beans'', price = 1999,
        originalPrice = None, image' = ''/placeholder.svg'',
        category = ''Food'', rating = 4.9, reviews = 445,
        isNew = Some True, isSale = None\<rparr>,
      \<lparr>id' = ''6'', name = ''Wireless Charging Pad'', price = 4099,
        originalPrice = Some 5799, image' = ''/placeholder.svg'',
        category = ''Electronics'', rating = 4.5, reviews = 127,
        isNew = None, isSale = Some True\<rparr>,
      \<lparr>id' = ''7'', name = ''Artisan Ceramic Mug'', price = 2699,
        originalPrice = None, image' = ''/placeholder.svg'',
        category = ''Home'', rating = 4.8, reviews = 89,
        isNew = None, isSale = None\<rparr>,
      \<lparr>id' = ''8'', name = ''Professional Camera Lens'', price = 74999,
        originalPrice = None, image' = ''/placeholder.svg'',
        category = ''Photography'', rating = 4.9, reviews = 234,
        isNew = Some True, isSale = None\<rparr> ]"

text \<open>
  \<^verbatim>\<open>filteredProducts\<close> is recomputed at every render from the selected category;
  \<^verbatim>\<open>===\<close> on strings is equality of the character sequences.
\<close>

definition filteredProducts :: "string \<Rightarrow> product list" where
  "filteredProducts selectedCategory =
     (if selectedCategory = ''All'' then mockProducts
      else filter (\<lambda>p. category p = selectedCategory) mockProducts)"

text \<open>
  \<^verbatim>\<open>toggleFavorite\<close> copies the set, then deletes the id when the copy has it and adds
  it otherwise. The favourites are only ever asked \<^verbatim>\<open>has\<close>, so the JavaScript
  \<^verbatim>\<open>Set\<close> is a set of ids.
\<close>

definition toggleFavorite :: "string \<Rightarrow> string set \<Rightarrow> string set" where
  "toggleFavorite productId prev =
     (let newFavorites = prev
      in if productId \<in> newFavorites then newFavorites - {productId}
         else insert productId newFavorites)"

section \<open>Sequences of cart operations\<close>

text \<open>
  The three requests the cart answers. A requested quantity is an integer, as the
  quantity of a line item is in the data model; \<open>updateQuantity\<close> itself stores the
  number it is given and does not round it. \<open>run\<close> starts from the empty cart of
  \<^verbatim>\<open>useState<any[]>([])\<close> and applies the requests from left to right.
\<close>

datatype cart_op = AddItem product | RemoveItem string | SetQuantity string int

primrec apply_op :: "cart_op \<Rightarrow> cart_item list \<Rightarrow> cart_item list" where
  "apply_op (AddItem product) prev = addToCart product prev"
| "apply_op (RemoveItem productId) prev = removeFromCart productId prev"
| "apply_op (SetQuantity productId qty) prev = updateQuantity productId (of_int qty) prev"

definition run :: "cart_op list \<Rightarrow> cart_item list" where
  "run ops = foldl (\<lambda>cart op. apply_op op cart) [] ops"


section \<open>Auxiliary facts\<close>


lemma addToCart_present:
  assumes "\<exists>item \<in> set prev. id' item = id' product"
  shows "addToCart product prev =
         map (\<lambda>item. if id' item = id' product
                      then item\<lparr>quantity := quantity item + 1\<rparr> else item) prev"
proof (cases "find (\<lambda>item. id' item = id' product) prev")
  case None
  with assms show ?thesis by (auto simp: find_None_iff)
next
  case (Some existingItem)
  then show ?thesis by (simp add: addToCart_def)
qed

lemma extend_fields [simp]:
  "id' (product.extend p (cart_item.fields q)) = id' p"
  "quantity (product.extend p (cart_item.fields q)) = q"
  by (simp_all add: product.defs cart_item.defs)

lemma map_at_unique:
  assumes "distinct (map f xs)" and "i < length xs" and "f (xs ! i) = k"
  shows "map (\<lambda>x. if f x = k then g x else x) xs = xs[i := g (xs ! i)]"
proof (rule nth_equalityI)
  show "length (map (\<lambda>x. if f x = k then g x else x) xs) = length (xs[i := g (xs ! i)])"
    by simp
next
  fix j
  assume "j < length (map (\<lambda>x. if f x = k then g x else x) xs)"
  then have j: "j < length xs" by simp
  show "map (\<lambda>x. if f x = k then g x else x) xs ! j = xs[i := g (xs ! i)] ! j"
  proof (cases "j = i")
    case True
    with assms show ?thesis by simp
  next
    case False
    have "map f xs ! j \<noteq> map f xs ! i"
      using assms(1,2) j False by (simp add: nth_eq_iff_index_eq del: nth_map)
    then have "f (xs ! j) \<noteq> k" using assms(2,3) j by simp
    with j False show ?thesis by simp
  qed
qed

lemma filter_at_unique:
  assumes "distinct (map f xs)" and "i < length xs" and "f (xs ! i) = k"
  shows "filter (\<lambda>x. f x \<noteq> k) xs = take i xs @ drop (Suc i) xs"
proof -
  have split: "xs = take i xs @ xs ! i # drop (Suc i) xs"
    using assms(2) by (rule id_take_nth_drop)
  have "distinct (map f (take i xs @ xs ! i # drop (Suc i) xs))"
    using assms(1) split by simp
  then have "k \<notin> f ` set (take i xs)" and "k \<notin> f ` set (drop (Suc i) xs)"
    using assms(3) by auto
  then have "filter (\<lambda>x. f x \<noteq> k) (take i xs) = take i xs"
    and "filter (\<lambda>x. f x \<noteq> k) (drop (Suc i) xs) = drop (Suc i) xs"
    by (auto simp: filter_id_conv)
  moreover have "filter (\<lambda>x. f x \<noteq> k) xs =
      filter (\<lambda>x. f x \<noteq> k) (take i xs) @ filter (\<lambda>x. f x \<noteq> k) (xs ! i # drop (Suc i) xs)"
    by (subst split) (simp only: filter_append)
  ultimately show ?thesis using assms(3) by simp
qed









text \<open>
  \<open>updateQuantity\<close> stores a positive number as it is given, so the quantities of a
  cart are integers because the requested ones are: a fractional request would be kept.
\<close>

lemma updateQuantity_keeps_fraction:
  "map quantity (updateQuantity ''1'' (1 / 2) (addToCart (hd mockProducts) [])) = [1 / 2]"
  by (simp add: updateQuantity_def addToCart_def mockProducts_def product.defs cart_item.defs)

section \<open>The invariant of the cart\<close>



section \<open>The operations of the cart\<close>



text \<open>
  C3. Setting a quantity that is zero or negative is the removal of the product id.
  Setting a positive quantity of a product id that a line item has keeps the sequence
  and replaces the quantity of that line item only: in a cart with unique ids the result
  is the cart updated at that one position; in any list, every position keeps its item,
  with the quantity replaced where the id is the requested one.
\<close>

theorem updateQuantity_spec:
  "(qty \<le> 0 \<longrightarrow> updateQuantity productId qty prev = removeFromCart productId prev)
   \<and> (0 < qty \<and> distinct (map id' prev) \<and> i < length prev \<and> id' (prev ! i) = productId \<longrightarrow>
      updateQuantity productId qty prev = prev[i := (prev ! i)\<lparr>quantity := qty\<rparr>])
   \<and> (0 < qty \<longrightarrow>
      length (updateQuantity productId qty prev) = length prev
      \<and> (\<forall>j < length prev. updateQuantity productId qty prev ! j =
            (if id' (prev ! j) = productId then (prev ! j)\<lparr>quantity := qty\<rparr> else prev ! j)))"
proof (intro conjI impI)
  assume "qty \<le> 0"
  then show "updateQuantity productId qty prev = removeFromCart productId prev"
    by (simp add: updateQuantity_def)
next
  assume a: "0 < qty \<and> distinct (map id' prev) \<and> i < length prev \<and> id' (prev ! i) = productId"
  then have "updateQuantity productId qty prev =
      map (\<lambda>item. if id' item = productId then item\<lparr>quantity := qty\<rparr> else item) prev"
    by (simp add: updateQuantity_def)
  also have "\<dots> = prev[i := (prev ! i)\<lparr>quantity := qty\<rparr>]"
    using a by (intro map_at_unique) simp_all
  finally show "updateQuantity productId qty prev = prev[i := (prev ! i)\<lparr>quantity := qty\<rparr>]" .
next
  assume "0 < qty"
  then have eq: "updateQuantity productId qty prev =
      map (\<lambda>item. if id' item = productId then item\<lparr>quantity := qty\<rparr> else item) prev"
    by (simp add: updateQuantity_def)
  show "length (updateQuantity productId qty prev) = length prev" by (simp add: eq)
  show "\<forall>j < length prev. updateQuantity productId qty prev ! j =
            (if id' (prev ! j) = productId then (prev ! j)\<lparr>quantity := qty\<rparr> else prev ! j)"
    by (simp add: eq)
qed

theorem updateQuantity_spec_witness:
  "updateQuantity ''2'' 5
     [product.extend (mockProducts ! 0) (cart_item.fields 2),
      product.extend (mockProducts ! 1) (cart_item.fields 1),
      product.extend (mockProducts ! 2) (cart_item.fields 4)]
   = [product.extend (mockProducts ! 0) (cart_item.fields 2),
      product.extend (mockProducts ! 1) (cart_item.fields 5),
      product.extend (mockProducts ! 2) (cart_item.fields 4)]
   \<and> updateQuantity ''2'' 0
     [product.extend (mockProducts ! 0) (cart_item.fields 2),
      product.extend (mockProducts ! 1) (cart_item.fields 1),
      product.extend (mockProducts ! 2) (cart_item.fields 4)]
   = [product.extend (mockProducts ! 0) (cart_item.fields 2),
      product.extend (mockProducts ! 2) (cart_item.fields 4)]
   \<and> updateQuantity ''2'' (- 3)
     [product.extend (mockProducts ! 0) (cart_item.fields 2),
      product.extend (mockProducts ! 1) (cart_item.fields 1),
      product.extend (mockProducts ! 2) (cart_item.fields 4)]
   = removeFromCart ''2''
     [product.extend (mockProducts ! 0) (cart_item.fields 2),
      product.extend (mockProducts ! 1) (cart_item.fields 1),
      product.extend (mockProducts ! 2) (cart_item.fields 4)]"
  using updateQuantity_spec [where qty = 5 and productId = "''2''" and i = 1 and prev = "[product.extend (mockProducts ! 0) (cart_item.fields 2),
      product.extend (mockProducts ! 1) (cart_item.fields 1),
      product.extend (mockProducts ! 2) (cart_item.fields 4)]"]
    updateQuantity_spec [where qty = 0 and productId = "''2''" and i = 0 and prev = "[product.extend (mockProducts ! 0) (cart_item.fields 2),
      product.extend (mockProducts ! 1) (cart_item.fields 1),
      product.extend (mockProducts ! 2) (cart_item.fields 4)]"]
    updateQuantity_spec [where qty = "- 3" and productId = "''2''" and i = 0 and prev = "[product.extend (mockProducts ! 0) (cart_item.fields 2),
      product.extend (mockProducts ! 1) (cart_item.fields 1),
      product.extend (mockProducts ! 2) (cart_item.fields 4)]"]
  by (simp add: mockProducts_def removeFromCart_def product.defs cart_item.defs)

text \<open>
  C4. Removing a product id that no line item has returns the cart as it is. Removing
  one that a line item of a cart with unique ids has deletes that line item and keeps
  the others in their order. In any list the result is a subsequence of the cart that
  holds every item with another id and none with the removed id.
\<close>

theorem removeFromCart_spec:
  "((\<forall>item \<in> set prev. id' item \<noteq> productId) \<longrightarrow> removeFromCart productId prev = prev)
   \<and> (distinct (map id' prev) \<and> i < length prev \<and> id' (prev ! i) = productId \<longrightarrow>
      removeFromCart productId prev = take i prev @ drop (Suc i) prev)
   \<and> productId \<notin> id' ` set (removeFromCart productId prev)
   \<and> subseq (removeFromCart productId prev) prev
   \<and> (\<forall>item \<in> set prev. id' item \<noteq> productId \<longrightarrow> item \<in> set (removeFromCart productId prev))"
proof (intro conjI impI)
  assume "\<forall>item \<in> set prev. id' item \<noteq> productId"
  then show "removeFromCart productId prev = prev"
    by (simp add: removeFromCart_def filter_id_conv)
next
  assume "distinct (map id' prev) \<and> i < length prev \<and> id' (prev ! i) = productId"
  then show "removeFromCart productId prev = take i prev @ drop (Suc i) prev"
    unfolding removeFromCart_def by (intro filter_at_unique) simp_all
next
  show "productId \<notin> id' ` set (removeFromCart productId prev)"
    by (auto simp: removeFromCart_def)
next
  show "subseq (removeFromCart productId prev) prev"
    by (simp add: removeFromCart_def)
next
  show "\<forall>item \<in> set prev. id' item \<noteq> productId \<longrightarrow> item \<in> set (removeFromCart productId prev)"
    by (simp add: removeFromCart_def)
qed

theorem removeFromCart_spec_witness:
  "removeFromCart ''2''
     [product.extend (mockProducts ! 0) (cart_item.fields 2),
      product.extend (mockProducts ! 1) (cart_item.fields 1),
      product.extend (mockProducts ! 2) (cart_item.fields 4)]
   = [product.extend (mockProducts ! 0) (cart_item.fields 2),
      product.extend (mockProducts ! 2) (cart_item.fields 4)]
   \<and> removeFromCart ''7''
     [product.extend (mockProducts ! 0) (cart_item.fields 2),
      product.extend (mockProducts ! 1) (cart_item.fields 1),
      product.extend (mockProducts ! 2) (cart_item.fields 4)]
   = [product.extend (mockProducts ! 0) (cart_item.fields 2),
      product.extend (mockProducts ! 1) (cart_item.fields 1),
      product.extend (mockProducts ! 2) (cart_item.fields 4)]"
  using removeFromCart_spec [where prev = "[product.extend (mockProducts ! 0) (cart_item.fields 2),
      product.extend (mockProducts ! 1) (cart_item.fields 1),
      product.extend (mockProducts ! 2) (cart_item.fields 4)]" and productId = "''2''" and i = 1]
    removeFromCart_spec [where prev = "[product.extend (mockProducts ! 0) (cart_item.fields 2),
      product.extend (mockProducts ! 1) (cart_item.fields 1),
      product.extend (mockProducts ! 2) (cart_item.fields 4)]" and productId = "''7''" and i = 0]
  by (simp add: mockProducts_def product.defs cart_item.defs)

section \<open>The badge count\<close>



section \<open>The scenario of the specification\<close>

text \<open>
  C6. From the empty cart, adding a product gives one line item with the product's id
  and quantity 1; adding the same product again gives that one line item with quantity
  2, not two line items; setting its quantity to 0 then empties the cart.
\<close>

theorem add_twice_then_zero:
  "addToCart p [] = [product.extend p (cart_item.fields 1)]
   \<and> addToCart p (addToCart p []) = [product.extend p (cart_item.fields 2)]
   \<and> map id' (addToCart p (addToCart p [])) = [id' p]
   \<and> map quantity (addToCart p (addToCart p [])) = [2]
   \<and> updateQuantity (id' p) 0 (addToCart p (addToCart p [])) = []
   \<and> run [AddItem p, AddItem p, SetQuantity (id' p) 0] = []"
  by (simp add: addToCart_def updateQuantity_def removeFromCart_def run_def
        product.defs cart_item.defs)

theorem add_twice_then_zero_witness:
  "run [AddItem (hd mockProducts)] =
     [\<lparr>id' = ''1'', name = ''Premium Wireless Headphones'', price = 24999,
       originalPrice = Some 32999, image' = ''/placeholder.svg'',
       category = ''Electronics'', rating = 4.8, reviews = 324,
       isNew = None, isSale = Some True, quantity = 1\<rparr>]
   \<and> run [AddItem (hd mockProducts), AddItem (hd mockProducts)] =
     [\<lparr>id' = ''1'', name = ''Premium Wireless Headphones'', price = 24999,
       originalPrice = Some 32999, image' = ''/placeholder.svg'',
       category = ''Electronics'', rating = 4.8, reviews = 324,
       isNew = None, isSale = Some True, quantity = 2\<rparr>]
   \<and> run [AddItem (hd mockProducts), AddItem (hd mockProducts), SetQuantity ''1'' 0] = []"
  using add_twice_then_zero [of "hd mockProducts"]
  by (simp add: run_def mockProducts_def addToCart_def product.defs cart_item.defs)

section \<open>The catalog view: filter and favourites\<close>

text \<open>
  C7. With the selected category \<open>All\<close> the filtered view is the whole static product
  list in its order. With any other selected category it is the products whose category
  is that very string (equality of the character sequences, so case matters), in the
  order they have in the static list: a subsequence of it holding exactly the matching
  products. The static list is a constant; the view is computed from it and nothing
  writes to it.
\<close>

theorem filteredProducts_spec:
  "filteredProducts ''All'' = mockProducts
   \<and> (selectedCategory \<noteq> ''All'' \<longrightarrow>
        filteredProducts selectedCategory =
          filter (\<lambda>p. category p = selectedCategory) mockProducts
        \<and> subseq (filteredProducts selectedCategory) mockProducts
        \<and> set (filteredProducts selectedCategory) =
            {p \<in> set mockProducts. category p = selectedCategory})"
  by (simp add: filteredProducts_def)

theorem filteredProducts_spec_witness:
  "filteredProducts ''All'' = mockProducts
   \<and> length (filteredProducts ''All'') = 8
   \<and> map id' (filteredProducts ''Electronics'') = [''1'', ''6'']
   \<and> map id' (filteredProducts ''Home'') = [''7'']
   \<and> filteredProducts ''electronics'' = []
   \<and> filteredProducts ''Toys'' = []"
  using filteredProducts_spec [where selectedCategory = "''All''"]
    filteredProducts_spec [where selectedCategory = "''Electronics''"]
    filteredProducts_spec [where selectedCategory = "''Home''"]
    filteredProducts_spec [where selectedCategory = "''electronics''"]
    filteredProducts_spec [where selectedCategory = "''Toys''"]
  by (simp add: mockProducts_def)

text \<open>
  C8. Toggling a product id flips the membership of that id in the favourites and leaves
  the membership of every other id as it was; toggling the same id twice gives the
  favourites back.
\<close>

theorem toggleFavorite_flip:
  "(x \<in> toggleFavorite x S \<longleftrightarrow> x \<notin> S)
   \<and> (\<forall>y. y \<noteq> x \<longrightarrow> (y \<in> toggleFavorite x S \<longleftrightarrow> y \<in> S))
   \<and> toggleFavorite x (toggleFavorite x S) = S"
  by (auto simp: toggleFavorite_def Let_def)

theorem toggleFavorite_flip_witness:
  "toggleFavorite ''3'' {''1'', ''3''} = {''1''}
   \<and> toggleFavorite ''2'' {''1''} = {''1'', ''2''}
   \<and> ''1'' \<in> toggleFavorite ''3'' {''1'', ''3''}
   \<and> ''3'' \<notin> toggleFavorite ''3'' {''1'', ''3''}
   \<and> toggleFavorite ''3'' (toggleFavorite ''3'' {''1'', ''3''}) = {''1'', ''3''}
   \<and> toggleFavorite ''2'' (toggleFavorite ''2'' {''1'', ''3''}) = {''1'', ''3''}"
  using toggleFavorite_flip [where x = "''3''" and S = "{''1'', ''3''}"]
    toggleFavorite_flip [where x = "''2''" and S = "{''1'', ''3''}"]
  by (auto simp: toggleFavorite_def Let_def)

section \<open>No operation fails\<close>



section \<open>What adding leaves alone\<close>

text \<open>
  C10. When the id of the added product is the id of a line item, that line item keeps
  every stored field but the quantity, which grows by 1 (the name, price and other
  attributes of the product passed in are not looked at), and every line item with
  another id is unchanged.
\<close>

theorem addToCart_frame:
  "(\<exists>item \<in> set prev. id' item = id' product) \<longrightarrow>
     length (addToCart product prev) = length prev
     \<and> (\<forall>j < length prev.
          (id' (prev ! j) = id' product \<longrightarrow>
             id' (addToCart product prev ! j) = id' (prev ! j)
             \<and> name (addToCart product prev ! j) = name (prev ! j)
             \<and> price (addToCart product prev ! j) = price (prev ! j)
             \<and> originalPrice (addToCart product prev ! j) = originalPrice (prev ! j)
             \<and> image' (addToCart product prev ! j) = image' (prev ! j)
             \<and> category (addToCart product prev ! j) = category (prev ! j)
             \<and> rating (addToCart product prev ! j) = rating (prev ! j)
             \<and> reviews (addToCart product prev ! j) = reviews (prev ! j)
             \<and> isNew (addToCart product prev ! j) = isNew (prev ! j)
             \<and> isSale (addToCart product prev ! j) = isSale (prev ! j)
             \<and> quantity (addToCart product prev ! j) = quantity (prev ! j) + 1)
          \<and> (id' (prev ! j) \<noteq> id' product \<longrightarrow> addToCart product prev ! j = prev ! j))"
proof
  assume "\<exists>item \<in> set prev. id' item = id' product"
  then have eq: "addToCart product prev =
      map (\<lambda>item. if id' item = id' product
                   then item\<lparr>quantity := quantity item + 1\<rparr> else item) prev"
    by (rule addToCart_present)
  show "length (addToCart product prev) = length prev
     \<and> (\<forall>j < length prev.
          (id' (prev ! j) = id' product \<longrightarrow>
             id' (addToCart product prev ! j) = id' (prev ! j)
             \<and> name (addToCart product prev ! j) = name (prev ! j)
             \<and> price (addToCart product prev ! j) = price (prev ! j)
             \<and> originalPrice (addToCart product prev ! j) = originalPrice (prev ! j)
             \<and> image' (addToCart product prev ! j) = image' (prev ! j)
             \<and> category (addToCart product prev ! j) = category (prev ! j)
             \<and> rating (addToCart product prev ! j) = rating (prev ! j)
             \<and> reviews (addToCart product prev ! j) = reviews (prev ! j)
             \<and> isNew (addToCart product prev ! j) = isNew (prev ! j)
             \<and> isSale (addToCart product prev ! j) = isSale (prev ! j)
             \<and> quantity (addToCart product prev ! j) = quantity (prev ! j) + 1)
          \<and> (id' (prev ! j) \<noteq> id' product \<longrightarrow> addToCart product prev ! j = prev ! j))"
    by (simp add: eq)
qed

theorem addToCart_frame_witness:
  "addToCart
     \<lparr>id' = ''1'', name = ''Renamed'', price = 1, originalPrice = None, image' = ''/other.svg'',
       category = ''Other'', rating = 1, reviews = 0, isNew = Some True, isSale = None\<rparr>
     [product.extend (mockProducts ! 0) (cart_item.fields 2),
      product.extend (mockProducts ! 1) (cart_item.fields 1)]
   = [product.extend (mockProducts ! 0) (cart_item.fields 3),
      product.extend (mockProducts ! 1) (cart_item.fields 1)]
   \<and> name (hd (addToCart
     \<lparr>id' = ''1'', name = ''Renamed'', price = 1, originalPrice = None, image' = ''/other.svg'',
       category = ''Other'', rating = 1, reviews = 0, isNew = Some True, isSale = None\<rparr>
     [product.extend (mockProducts ! 0) (cart_item.fields 2),
      product.extend (mockProducts ! 1) (cart_item.fields 1)])) = ''Premium Wireless Headphones''"
  using addToCart_frame [where prev = "[product.extend (mockProducts ! 0) (cart_item.fields 2),
      product.extend (mockProducts ! 1) (cart_item.fields 1)]"
    and product = "\<lparr>id' = ''1'', name = ''Renamed'', price = 1, originalPrice = None,
       image' = ''/other.svg'', category = ''Other'', rating = 1, reviews = 0,
       isNew = Some True, isSale = None\<rparr>"]
  by (simp add: mockProducts_def addToCart_def product.defs cart_item.defs)

end
